theory Spec2Isabelle
  imports Complex_Main "HOL-Library.AList"
begin

section \<open>Strings\<close>

text \<open>
  A Python \<open>str\<close> is a sequence of Unicode code points, and slicing (\<open>s[:50]\<close>) counts code
  points. The source's literals contain code points above 255 (U+2705, U+274C, U+26A0,
  U+FE0F), so a string is modelled as a list of code points, and an ASCII literal is written
  \<open>ascii ''...''\<close>.
\<close>

type_synonym codepoint = nat
type_synonym str = "codepoint list"

definition ascii :: "string \<Rightarrow> str" where
  "ascii s = map of_char s"

text \<open>The three non-ASCII prefixes of the diagnostics strings, as they stand in \<open>main.py\<close>.\<close>

definition check_mark :: str where
  "check_mark = [0x2705]"

definition cross_mark :: str where
  "cross_mark = [0x274C]"

definition warning_sign :: str where
  "warning_sign = [0x26A0, 0xFE0F]"

section \<open>Pricing plans (static catalog)\<close>

datatype interval = Month | Year

text \<open>
  \<open>class Plan(BaseModel)\<close>. The fields carry the prefix \<open>p_\<close> because \<open>id\<close> is a HOL
  constant and the other models have fields of the same names. \<open>price\<close> is a Python float;
  the catalog's prices (9, 29, 79) are exact, and the code only copies them.
\<close>

record Plan =
  p_id :: str
  p_name :: str
  p_price :: real
  p_interval :: interval
  p_features :: "str list"
  p_most_popular :: bool

definition starter_plan :: Plan where
  "starter_plan =
     \<lparr>p_id = ascii ''starter'', p_name = ascii ''Starter'', p_price = 9, p_interval = Month,
      p_features = [ascii ''Unlimited projects'', ascii ''Community support'',
                    ascii ''Basic analytics''],
      p_most_popular = False\<rparr>"

definition pro_plan :: Plan where
  "pro_plan =
     \<lparr>p_id = ascii ''pro'', p_name = ascii ''Pro'', p_price = 29, p_interval = Month,
      p_features = [ascii ''Everything in Starter'', ascii ''Advanced analytics'',
                    ascii ''Priority support'', ascii ''Team collaboration''],
      p_most_popular = True\<rparr>"

definition business_plan :: Plan where
  "business_plan =
     \<lparr>p_id = ascii ''business'', p_name = ascii ''Business'', p_price = 79, p_interval = Month,
      p_features = [ascii ''Everything in Pro'', ascii ''SLA & SSO'', ascii ''Audit logs'',
                    ascii ''Dedicated success manager''],
      p_most_popular = False\<rparr>"

definition PRICING_PLANS :: "Plan list" where
  "PRICING_PLANS = [starter_plan, pro_plan, business_plan]"

definition list_plans :: "Plan list" where
  "list_plans = PRICING_PLANS"

section \<open>Request, response and stored models\<close>

text \<open>\<open>class CheckoutRequest(BaseModel)\<close>; \<open>user_id\<close> is \<open>Optional[str]\<close>.\<close>

record CheckoutRequest =
  req_plan_id :: str
  req_email :: str
  req_user_id :: "str option"

text \<open>\<open>Literal["pending", "active"]\<close>: \<open>Active\<close> stands for the string \<open>"active"\<close>.\<close>

datatype status = Pending | Active

record CheckoutResponse =
  subscription_id :: str
  resp_status :: status
  message :: str

text \<open>
  Modelled from the spec: \<open>schemas.Subscription\<close> is imported by \<open>main.py\<close> but its
  declaration is not among the sources. The spec's data model gives its fields:
  \<open>{plan_id, plan_name, price, interval, email, user_id (optional), status}\<close>; the
  constructor stores the keyword arguments it is given.
\<close>

record Subscription =
  sub_plan_id :: str
  sub_plan_name :: str
  sub_price :: real
  sub_interval :: interval
  sub_email :: str
  sub_user_id :: "str option"
  sub_status :: status

text \<open>\<open>HTTPException(status_code=..., detail=...)\<close>.\<close>

record HTTPException =
  status_code :: nat
  detail :: str

section \<open>The document store accessor\<close>

text \<open>
  \<open>create_document\<close> and \<open>get_documents\<close> come from the module \<open>database\<close>, an external
  collaborator: the handlers take them as parameters. The accessor works on a store of
  some type \<open>'s\<close>, which it may change. A Python dict is an association list in insertion
  order. A value of a stored document is either a \<open>str\<close> or some other object \<open>'o\<close> (an
  ObjectId, a number, ...), whose \<open>str()\<close> is a parameter too.
\<close>

datatype 'o pyval = Str str | Other 'o

type_synonym 'o document = "(str \<times> 'o pyval) list"

type_synonym 's create_document_fn = "str \<Rightarrow> Subscription \<Rightarrow> 's \<Rightarrow> str \<times> 's"

type_synonym ('s, 'o) get_documents_fn =
  "str \<Rightarrow> (str \<times> str) list \<Rightarrow> nat \<Rightarrow> 's \<Rightarrow> 'o document list \<times> 's"

text \<open>
  Every call a handler makes to the accessor is appended to a log beside the store, so
  that "the accessor is called with these arguments" and "the accessor is not called"
  are statements about the log.
\<close>

datatype call =
  CreateDocument str Subscription
| GetDocuments str "(str \<times> str) list" nat

record 's world =
  db_state :: 's
  calls :: "call list"

definition call_create_document ::
  "'s create_document_fn \<Rightarrow> str \<Rightarrow> Subscription \<Rightarrow> 's world \<Rightarrow> str \<times> 's world" where
  "call_create_document create_document collection_name data w =
     (case create_document collection_name data (db_state w) of
        (inserted_id, s') \<Rightarrow>
          (inserted_id,
           \<lparr>db_state = s', calls = calls w @ [CreateDocument collection_name data]\<rparr>))"

definition call_get_documents ::
  "('s, 'o) get_documents_fn \<Rightarrow> str \<Rightarrow> (str \<times> str) list \<Rightarrow> nat \<Rightarrow> 's world
     \<Rightarrow> 'o document list \<times> 's world" where
  "call_get_documents get_documents collection_name filter_dict limit w =
     (case get_documents collection_name filter_dict limit (db_state w) of
        (docs, s') \<Rightarrow>
          (docs,
           \<lparr>db_state = s',
            calls = calls w @ [GetDocuments collection_name filter_dict limit]\<rparr>))"

section \<open>Checkout\<close>

text \<open>
  \<open>next((p for p in PRICING_PLANS if p.id == req.plan_id), None)\<close> is the first plan of the
  catalog with that id, \<open>List.find\<close>. A \<open>Plan\<close> object is truthy, so \<open>not plan\<close> holds exactly
  for \<open>None\<close>. The raised \<open>HTTPException\<close> is the left summand.
\<close>

definition checkout ::
  "'s create_document_fn \<Rightarrow> CheckoutRequest \<Rightarrow> 's world
     \<Rightarrow> (HTTPException + CheckoutResponse) \<times> 's world" where
  "checkout create_document req w =
     (case find (\<lambda>p. p_id p = req_plan_id req) PRICING_PLANS of
        None \<Rightarrow> (Inl \<lparr>status_code = 404, detail = ascii ''Plan not found''\<rparr>, w)
      | Some plan \<Rightarrow>
          (let sub = \<lparr>sub_plan_id = p_id plan, sub_plan_name = p_name plan,
                      sub_price = p_price plan, sub_interval = p_interval plan,
                      sub_email = req_email req, sub_user_id = req_user_id req,
                      sub_status = Active\<rparr>
           in case call_create_document create_document (ascii ''subscription'') sub w of
                (inserted_id, w') \<Rightarrow>
                  (Inr \<lparr>subscription_id = inserted_id, resp_status = sub_status sub,
                        message = ascii ''Subscription for '' @ p_name plan
                                    @ ascii '' activated''\<rparr>,
                   w')))"

text \<open>The record \<open>sub\<close> that checkout constructs for a plan and a request, by name.\<close>

definition new_subscription :: "Plan \<Rightarrow> CheckoutRequest \<Rightarrow> Subscription" where
  "new_subscription plan req =
     \<lparr>sub_plan_id = p_id plan, sub_plan_name = p_name plan,
      sub_price = p_price plan, sub_interval = p_interval plan,
      sub_email = req_email req, sub_user_id = req_user_id req,
      sub_status = Active\<rparr>"

section \<open>Subscription query\<close>

text \<open>
  \<open>if user_id:\<close> tests the truthiness of an \<open>Optional[str]\<close>: \<open>None\<close> and the empty string
  are false.
\<close>

definition truthy :: "str option \<Rightarrow> bool" where
  "truthy x = (case x of None \<Rightarrow> False | Some s \<Rightarrow> s \<noteq> [])"

text \<open>The filter the handler builds: \<open>user_id\<close> first, then \<open>email\<close>, then \<open>filter_dict or {}\<close>.\<close>

definition build_filter :: "str option \<Rightarrow> str option \<Rightarrow> (str \<times> str) list" where
  "build_filter email user_id =
     (let filter_dict = [];
          filter_dict = (case user_id of
                           Some u \<Rightarrow> if truthy user_id
                                     then AList.update (ascii ''user_id'') u filter_dict
                                     else filter_dict
                         | None \<Rightarrow> filter_dict);
          filter_dict = (case email of
                           Some e \<Rightarrow> if truthy email
                                     then AList.update (ascii ''email'') e filter_dict
                                     else filter_dict
                         | None \<Rightarrow> filter_dict)
      in if filter_dict \<noteq> [] then filter_dict else [])"

text \<open>\<open>str(x)\<close> of a document value: a \<open>str\<close> is returned as it is.\<close>

definition str_of :: "('o \<Rightarrow> str) \<Rightarrow> 'o pyval \<Rightarrow> str" where
  "str_of py_str v = (case v of Str s \<Rightarrow> s | Other x \<Rightarrow> py_str x)"

text \<open>The body of the loop: \<open>if "_id" in d: d["_id"] = str(d["_id"])\<close>.\<close>

definition stringify_id :: "('o \<Rightarrow> str) \<Rightarrow> 'o document \<Rightarrow> 'o document" where
  "stringify_id py_str d =
     (case map_of d (ascii ''_id'') of
        None \<Rightarrow> d
      | Some v \<Rightarrow> AList.update (ascii ''_id'') (Str (str_of py_str v)) d)"

text \<open>The response \<open>{"items": docs}\<close>.\<close>

record 'o SubscriptionsResponse =
  items :: "'o document list"

definition get_user_subscriptions ::
  "('s, 'o) get_documents_fn \<Rightarrow> ('o \<Rightarrow> str) \<Rightarrow> str option \<Rightarrow> str option \<Rightarrow> 's world
     \<Rightarrow> 'o SubscriptionsResponse \<times> 's world" where
  "get_user_subscriptions get_documents py_str email user_id w =
     (case call_get_documents get_documents (ascii ''subscription'')
             (build_filter email user_id) 50 w of
        (docs, w') \<Rightarrow> (\<lparr>items = map (stringify_id py_str) docs\<rparr>, w'))"

section \<open>Diagnostics\<close>

text \<open>
  The exceptions the handler can meet are instances of \<open>Exception\<close>: an \<open>ImportError\<close>, or
  any other one. Each carries its \<open>str(e)\<close>.
\<close>

datatype py_exception = ImportError str | OtherException str

definition exception_str :: "py_exception \<Rightarrow> str" where
  "exception_str e = (case e of ImportError m \<Rightarrow> m | OtherException m \<Rightarrow> m)"

text \<open>
  What the handler sees of the connection handle \<open>db\<close>: its \<open>name\<close> when
  \<open>hasattr(db, 'name')\<close> (reading the attribute does not raise), and what
  \<open>db.list_collection_names()\<close> does, which is to raise or to return the names.
\<close>

record db_handle =
  db_name :: "str option"
  list_collection_names :: "py_exception + str list"

text \<open>
  What \<open>from database import db\<close> does: it raises (an \<open>ImportError\<close> when the module is
  missing, another exception when the module fails while it connects), or it binds \<open>db\<close>
  to \<open>None\<close> or to a handle.
\<close>

datatype import_outcome = ImportRaises py_exception | Imported "db_handle option"

text \<open>The \<open>response\<close> dict has the same six keys throughout.\<close>

record report =
  backend :: str
  database :: str
  database_url :: "str option"
  database_name :: "str option"
  connection_status :: str
  collections :: "str list"

text \<open>
  The inner \<open>try\<close>, with its \<open>except Exception as e\<close>, which catches both classes. It returns
  the exception that leaves it, if any, and the dict as it is then.
\<close>

definition list_collections_block :: "db_handle \<Rightarrow> report \<Rightarrow> py_exception option \<times> report" where
  "list_collections_block db response =
     (case list_collection_names db of
        Inr names \<Rightarrow>
          (None, response\<lparr>collections := take 10 names,
                          database := check_mark @ ascii '' Connected & Working''\<rparr>)
      | Inl e \<Rightarrow>
          (None, response\<lparr>database := warning_sign @ ascii ''  Connected but Error: ''
                                        @ take 50 (exception_str e)\<rparr>))"

text \<open>The body of the outer \<open>try\<close>.\<close>

definition try_block :: "import_outcome \<Rightarrow> report \<Rightarrow> py_exception option \<times> report" where
  "try_block outcome response =
     (case outcome of
        ImportRaises e \<Rightarrow> (Some e, response)
      | Imported None \<Rightarrow>
          (None, response\<lparr>database := warning_sign @ ascii ''  Available but not initialized''\<rparr>)
      | Imported (Some db) \<Rightarrow>
          list_collections_block db
            (response\<lparr>database := check_mark @ ascii '' Available'',
                      database_url := Some (check_mark @ ascii '' Configured''),
                      database_name := Some (case db_name db of
                                               Some n \<Rightarrow> n
                                             | None \<Rightarrow> check_mark @ ascii '' Connected''),
                      connection_status := ascii ''Connected''\<rparr>))"

text \<open>
  The outer \<open>except ImportError\<close> and \<open>except Exception as e\<close> clauses: the result is the
  exception that still propagates (\<open>Inl\<close>) or the dict.
\<close>

definition except_clauses :: "py_exception option \<times> report \<Rightarrow> py_exception + report" where
  "except_clauses r =
     (case r of
        (None, response) \<Rightarrow> Inr response
      | (Some (ImportError m), response) \<Rightarrow>
          Inr (response\<lparr>database := cross_mark
                 @ ascii '' Database module not found (run enable-database first)''\<rparr>)
      | (Some (OtherException m), response) \<Rightarrow>
          Inr (response\<lparr>database := cross_mark @ ascii '' Error: '' @ take 50 m\<rparr>))"

definition env_flag :: "(str \<Rightarrow> str option) \<Rightarrow> str \<Rightarrow> str" where
  "env_flag getenv var =
     (if truthy (getenv var) then check_mark @ ascii '' Set''
      else cross_mark @ ascii '' Not Set'')"

definition test_database :: "(str \<Rightarrow> str option) \<Rightarrow> import_outcome \<Rightarrow> py_exception + report" where
  "test_database getenv outcome =
     (let response = \<lparr>backend = check_mark @ ascii '' Running'',
                       database = cross_mark @ ascii '' Not Available'',
                       database_url = None, database_name = None,
                       connection_status = ascii ''Not Connected'', collections = []\<rparr>
      in case except_clauses (try_block outcome response) of
           Inl e \<Rightarrow> Inl e
         | Inr response \<Rightarrow>
             Inr (response\<lparr>database_url := Some (env_flag getenv (ascii ''DATABASE_URL'')),
                           database_name := Some (env_flag getenv (ascii ''DATABASE_NAME''))\<rparr>))"

section \<open>The filter, in the words of the spec\<close>

text \<open>
  The spec's wording of the filter: an equality filter "from whichever of
  \<open>email\<close>/\<open>user_id\<close> are supplied". Read literally, a parameter is supplied when it is not
  \<open>None\<close>.
\<close>

definition equality_filter_of_supplied :: "str option \<Rightarrow> str option \<Rightarrow> (str \<times> str) list" where
  "equality_filter_of_supplied email user_id =
     (case user_id of None \<Rightarrow> [] | Some u \<Rightarrow> [(ascii ''user_id'', u)])
     @ (case email of None \<Rightarrow> [] | Some e \<Rightarrow> [(ascii ''email'', e)])"

text \<open>The same, from the parameters that are supplied and not the empty string.\<close>

definition equality_filter_of_nonempty :: "str option \<Rightarrow> str option \<Rightarrow> (str \<times> str) list" where
  "equality_filter_of_nonempty email user_id =
     (case user_id of
        None \<Rightarrow> []
      | Some u \<Rightarrow> if u = [] then [] else [(ascii ''user_id'', u)])
     @ (case email of
          None \<Rightarrow> []
        | Some e \<Rightarrow> if e = [] then [] else [(ascii ''email'', e)])"

section \<open>Unique identifiers\<close>

text \<open>
  The contract the spec asks of \<open>create_document\<close>: it returns a unique identifier on
  each call. \<open>created_ids\<close> runs a sequence of calls (collection and record of each) from a
  store and collects the identifiers returned; they are unique when no sequence of calls,
  from any store, returns an identifier twice.
\<close>

fun created_ids :: "'s create_document_fn \<Rightarrow> (str \<times> Subscription) list \<Rightarrow> 's \<Rightarrow> str list" where
  "created_ids create_document [] s = []"
| "created_ids create_document ((collection_name, data) # cs) s =
     (case create_document collection_name data s of
        (inserted_id, s') \<Rightarrow> inserted_id # created_ids create_document cs s')"

definition unique_ids :: "'s create_document_fn \<Rightarrow> bool" where
  "unique_ids create_document = (\<forall>cs s. distinct (created_ids create_document cs s))"

section \<open>A counting store for the examples\<close>

text \<open>
  The smallest accessor that hands out a fresh identifier on each call: the store is the
  number of documents created so far, and the \<open>n\<close>-th identifier is \<open>n\<close> times the letter i.
\<close>

definition counting_create_document :: "nat create_document_fn" where
  "counting_create_document collection_name data n = (replicate (Suc n) 105, Suc n)"

definition example_request :: CheckoutRequest where
  "example_request =
     \<lparr>req_plan_id = ascii ''pro'', req_email = ascii ''x@y.com'', req_user_id = None\<rparr>"

definition unknown_request :: CheckoutRequest where
  "unknown_request =
     \<lparr>req_plan_id = ascii ''nope'', req_email = ascii ''x@y.com'', req_user_id = None\<rparr>"

definition empty_world :: "nat world" where
  "empty_world = \<lparr>db_state = 0, calls = []\<rparr>"

section \<open>A list of documents as a store, for the examples\<close>

text \<open>
  An accessor for the queries of the examples: the store is the list of the documents
  of the collection, a document matches a filter when it has every key of the filter
  with that string as its value, and at most \<open>limit\<close> matching documents are returned.
  An object that is not a string is a number \<open>n\<close> here, whose \<open>str()\<close> is \<open>n\<close> times the
  letter f.
\<close>

definition matches :: "(str \<times> str) list \<Rightarrow> 'o document \<Rightarrow> bool" where
  "matches filter_dict d = list_all (\<lambda>(k, v). map_of d k = Some (Str v)) filter_dict"

definition listing_get_documents :: "('o document list, 'o) get_documents_fn" where
  "listing_get_documents collection_name filter_dict limit docs =
     (take limit (filter (matches filter_dict) docs), docs)"

definition example_str :: "nat \<Rightarrow> str" where
  "example_str n = replicate n 102"

definition example_docs :: "nat document list" where
  "example_docs =
     [[(ascii ''_id'', Other 2), (ascii ''email'', Str (ascii ''a@b.com'')),
       (ascii ''plan_id'', Str (ascii ''pro''))],
      [(ascii ''email'', Str (ascii ''a@b.com'')), (ascii ''plan_id'', Str (ascii ''starter''))],
      [(ascii ''_id'', Other 3), (ascii ''email'', Str (ascii ''c@d.com''))]]"

definition example_store :: "nat document list world" where
  "example_store = \<lparr>db_state = example_docs, calls = []\<rparr>"

section \<open>Connection handles and an environment for the examples\<close>

definition twelve_names :: "str list" where
  "twelve_names =
     [ascii ''c01'', ascii ''c02'', ascii ''c03'', ascii ''c04'', ascii ''c05'', ascii ''c06'',
      ascii ''c07'', ascii ''c08'', ascii ''c09'', ascii ''c10'', ascii ''c11'', ascii ''c12'']"

definition working_handle :: db_handle where
  "working_handle = \<lparr>db_name = Some (ascii ''appdb''), list_collection_names = Inr twelve_names\<rparr>"

text \<open>A handle whose enumeration fails with a message of 60 times the letter x.\<close>

definition failing_handle :: db_handle where
  "failing_handle =
     \<lparr>db_name = None, list_collection_names = Inl (OtherException (replicate 60 120))\<rparr>"

definition example_getenv :: "str \<Rightarrow> str option" where
  "example_getenv var =
     (if var = ascii ''DATABASE_URL'' then Some (ascii ''mongodb://localhost'') else None)"

section \<open>Catalog facts\<close>

lemma ascii_eq_iff [simp]: "ascii a = ascii b \<longleftrightarrow> a = b"
  unfolding ascii_def by (rule inj_map_eq_map) (rule inj_onI, simp)

lemma ascii_append: "ascii (a @ b) = ascii a @ ascii b"
  by (simp add: ascii_def)

lemma ascii_Nil_iff [simp]: "ascii a = [] \<longleftrightarrow> a = []"
  by (simp add: ascii_def)

lemma plan_cases:
  "p \<in> set PRICING_PLANS \<Longrightarrow> p = starter_plan \<or> p = pro_plan \<or> p = business_plan"
  unfolding PRICING_PLANS_def by simp

lemma plan_ids [simp]:
  "p_id starter_plan = ascii ''starter''" "p_id pro_plan = ascii ''pro''"
  "p_id business_plan = ascii ''business''"
  by (simp_all add: starter_plan_def pro_plan_def business_plan_def)

lemma plan_names [simp]:
  "p_name starter_plan = ascii ''Starter''" "p_name pro_plan = ascii ''Pro''"
  "p_name business_plan = ascii ''Business''"
  by (simp_all add: starter_plan_def pro_plan_def business_plan_def)

text \<open>The ids are unique, so the lookup by the id of a catalog plan finds that plan.\<close>

lemma find_plan:
  assumes "p \<in> set PRICING_PLANS"
  shows "find (\<lambda>q. p_id q = p_id p) PRICING_PLANS = Some p"
proof -
  consider "p = starter_plan" | "p = pro_plan" | "p = business_plan"
    using plan_cases [OF assms] by blast
  then show ?thesis
  proof cases
    case 1 then show ?thesis by (simp add: PRICING_PLANS_def)
  next
    case 2 then show ?thesis by (simp add: PRICING_PLANS_def)
  next
    case 3 then show ?thesis by (simp add: PRICING_PLANS_def)
  qed
qed

lemma find_unknown:
  assumes "\<forall>p \<in> set PRICING_PLANS. p_id p \<noteq> x"
  shows "find (\<lambda>q. p_id q = x) PRICING_PLANS = None"
  using assms by (simp add: find_None_iff)

lemma pro_name:
  assumes "p \<in> set PRICING_PLANS" and "p_id p = ascii ''pro''"
  shows "p_name p = ascii ''Pro''"
proof -
  consider "p = starter_plan" | "p = pro_plan" | "p = business_plan"
    using plan_cases [OF assms(1)] by blast
  then show ?thesis
  proof cases
    case 1 with assms(2) show ?thesis by simp
  next
    case 2 then show ?thesis by simp
  next
    case 3 with assms(2) show ?thesis by simp
  qed
qed

lemma pro_in_catalog: "pro_plan \<in> set PRICING_PLANS"
  by (simp add: PRICING_PLANS_def)

section \<open>What checkout does on each branch\<close>

lemma checkout_found:
  assumes "find (\<lambda>q. p_id q = req_plan_id req) PRICING_PLANS = Some plan"
  shows "checkout create_document req w =
     (Inr \<lparr>subscription_id =
             fst (create_document (ascii ''subscription'') (new_subscription plan req)
                    (db_state w)),
           resp_status = Active,
           message = ascii ''Subscription for '' @ p_name plan @ ascii '' activated''\<rparr>,
      \<lparr>db_state =
         snd (create_document (ascii ''subscription'') (new_subscription plan req)
                (db_state w)),
       calls = calls w @
                 [CreateDocument (ascii ''subscription'') (new_subscription plan req)]\<rparr>)"
  by (simp add: checkout_def assms call_create_document_def new_subscription_def Let_def
        split: prod.split)

lemma checkout_found_ex:
  assumes "find (\<lambda>q. p_id q = req_plan_id req) PRICING_PLANS = Some plan"
  shows "\<exists>r w'. checkout create_document req w = (Inr r, w')
           \<and> subscription_id r =
               fst (create_document (ascii ''subscription'') (new_subscription plan req)
                      (db_state w))
           \<and> resp_status r = Active
           \<and> message r = ascii ''Subscription for '' @ p_name plan @ ascii '' activated''
           \<and> db_state w' =
               snd (create_document (ascii ''subscription'') (new_subscription plan req)
                      (db_state w))
           \<and> calls w' = calls w @
               [CreateDocument (ascii ''subscription'') (new_subscription plan req)]"
  unfolding checkout_found [OF assms] by simp

lemma checkout_not_found:
  assumes "find (\<lambda>q. p_id q = req_plan_id req) PRICING_PLANS = None"
  shows "checkout create_document req w =
           (Inl \<lparr>status_code = 404, detail = ascii ''Plan not found''\<rparr>, w)"
  by (simp add: checkout_def assms)

lemma pro_message:
  "ascii ''Subscription for '' @ ascii ''Pro'' @ ascii '' activated''
     = ascii ''Subscription for Pro activated''"
  by (simp add: ascii_append [symmetric])

section \<open>Claims about checkout\<close>

text \<open>
  C1. For every checkout request whose \<open>plan_id\<close> is the id of a plan of the catalog,
  checkout returns a response (it does not raise) with status \<open>"active"\<close> and a message
  that contains the plan's name; for \<open>plan_id = "pro"\<close> the message is exactly
  \<open>"Subscription for Pro activated"\<close>.
\<close>

theorem checkout_valid_plan:
  assumes "p \<in> set PRICING_PLANS" and "req_plan_id req = p_id p"
  shows "\<exists>r w'. checkout create_document req w = (Inr r, w') \<and> resp_status r = Active
          \<and> message r = ascii ''Subscription for '' @ p_name p @ ascii '' activated''
          \<and> (\<exists>pre post. message r = pre @ p_name p @ post)
          \<and> (req_plan_id req = ascii ''pro'' \<longrightarrow>
                message r = ascii ''Subscription for Pro activated'')"
proof -
  have f: "find (\<lambda>q. p_id q = req_plan_id req) PRICING_PLANS = Some p"
    using find_plan [OF assms(1)] assms(2) by simp
  obtain r w' where c: "checkout create_document req w = (Inr r, w')"
    and s: "resp_status r = Active"
    and m: "message r = ascii ''Subscription for '' @ p_name p @ ascii '' activated''"
    using checkout_found_ex [OF f, of create_document w] by blast
  have sub: "\<exists>pre post. message r = pre @ p_name p @ post"
    using m by blast
  have pr: "message r = ascii ''Subscription for Pro activated''"
    if "req_plan_id req = ascii ''pro''"
  proof -
    have "p_name p = ascii ''Pro''"
      using pro_name [OF assms(1)] assms(2) that by simp
    then show ?thesis using m pro_message by simp
  qed
  show ?thesis using c s m sub pr by blast
qed

lemma checkout_example:
  "checkout counting_create_document example_request empty_world =
     (Inr \<lparr>subscription_id = ascii ''i'', resp_status = Active,
           message = ascii ''Subscription for Pro activated''\<rparr>,
      \<lparr>db_state = 1,
       calls = [CreateDocument (ascii ''subscription'')
                  \<lparr>sub_plan_id = ascii ''pro'', sub_plan_name = ascii ''Pro'', sub_price = 29,
                   sub_interval = Month, sub_email = ascii ''x@y.com'', sub_user_id = None,
                   sub_status = Active\<rparr>]\<rparr>)"
proof -
  have "p_id pro_plan = req_plan_id example_request"
    by (simp add: example_request_def)
  then have f: "find (\<lambda>q. p_id q = req_plan_id example_request) PRICING_PLANS = Some pro_plan"
    using find_plan [OF pro_in_catalog] by simp
  show ?thesis
    unfolding checkout_found [OF f]
    by (simp add: counting_create_document_def new_subscription_def example_request_def
         empty_world_def pro_plan_def pro_message ascii_def)
qed

theorem checkout_valid_plan_witness:
  "pro_plan \<in> set PRICING_PLANS \<and> req_plan_id example_request = p_id pro_plan \<and>
   (\<exists>r w'. checkout counting_create_document example_request empty_world = (Inr r, w')
      \<and> resp_status r = Active \<and> message r = ascii ''Subscription for Pro activated'')"
proof -
  have h1: "pro_plan \<in> set PRICING_PLANS" by (rule pro_in_catalog)
  have h2: "req_plan_id example_request = p_id pro_plan" by (simp add: example_request_def)
  have h3: "req_plan_id example_request = ascii ''pro''" by (simp add: example_request_def)
  show ?thesis
    using checkout_valid_plan [OF h1 h2, of counting_create_document empty_world] h1 h2 h3
    by blast
qed

text \<open>
  C2. For every checkout request whose \<open>plan_id\<close> is the id of no plan of the catalog,
  checkout raises the \<open>HTTPException\<close> with status code 404 and detail
  \<open>"Plan not found"\<close>, and the accessor is not called: the store and the log of calls are
  as they were.
\<close>

theorem checkout_unknown_plan:
  assumes "req_plan_id req \<notin> p_id ` set PRICING_PLANS"
  shows "checkout create_document req w =
           (Inl \<lparr>status_code = 404, detail = ascii ''Plan not found''\<rparr>, w)
         \<and> calls (snd (checkout create_document req w)) = calls w"
proof -
  have "\<forall>p \<in> set PRICING_PLANS. p_id p \<noteq> req_plan_id req"
    using assms by (auto simp add: image_iff)
  then have "find (\<lambda>q. p_id q = req_plan_id req) PRICING_PLANS = None"
    by (rule find_unknown)
  then show ?thesis by (simp add: checkout_not_found)
qed

theorem checkout_unknown_plan_witness:
  "req_plan_id unknown_request \<notin> p_id ` set PRICING_PLANS \<and>
   checkout counting_create_document unknown_request empty_world =
     (Inl \<lparr>status_code = 404, detail = ascii ''Plan not found''\<rparr>, empty_world) \<and>
   calls (snd (checkout counting_create_document unknown_request empty_world)) = []"
proof -
  have h: "req_plan_id unknown_request \<notin> p_id ` set PRICING_PLANS"
    by (simp add: PRICING_PLANS_def unknown_request_def)
  show ?thesis
    using checkout_unknown_plan [OF h, of counting_create_document empty_world] h
    by (simp add: empty_world_def)
qed

text \<open>
  C6. For every checkout with a valid \<open>plan_id\<close>, exactly one record is handed to
  \<open>create_document\<close>, for the collection \<open>"subscription"\<close>: its status is \<open>"active"\<close>, its
  \<open>plan_id\<close>, \<open>plan_name\<close>, \<open>price\<close> and \<open>interval\<close> are those of the matched plan, its
  \<open>email\<close> and \<open>user_id\<close> those of the request. The returned \<open>subscription_id\<close> is the
  identifier \<open>create_document\<close> returned, and the status of the response is the status
  of the record.
\<close>

theorem checkout_persists_subscription:
  assumes "p \<in> set PRICING_PLANS" and "req_plan_id req = p_id p"
  shows "\<exists>sub r w'. checkout create_document req w = (Inr r, w')
           \<and> calls w' = calls w @ [CreateDocument (ascii ''subscription'') sub]
           \<and> sub_status sub = Active
           \<and> sub_plan_id sub = p_id p \<and> sub_plan_name sub = p_name p
           \<and> sub_price sub = p_price p \<and> sub_interval sub = p_interval p
           \<and> sub_email sub = req_email req \<and> sub_user_id sub = req_user_id req
           \<and> (subscription_id r, db_state w') =
                 create_document (ascii ''subscription'') sub (db_state w)
           \<and> resp_status r = sub_status sub"
proof -
  have f: "find (\<lambda>q. p_id q = req_plan_id req) PRICING_PLANS = Some p"
    using find_plan [OF assms(1)] assms(2) by simp
  define sub where "sub = new_subscription p req"
  obtain r w' where c: "checkout create_document req w = (Inr r, w')"
    and l: "calls w' = calls w @ [CreateDocument (ascii ''subscription'') sub]"
    and i: "subscription_id r = fst (create_document (ascii ''subscription'') sub (db_state w))"
    and d: "db_state w' = snd (create_document (ascii ''subscription'') sub (db_state w))"
    and s: "resp_status r = Active"
    using checkout_found_ex [OF f, of create_document w] unfolding sub_def by blast
  have fields: "sub_status sub = Active" "sub_plan_id sub = p_id p" "sub_plan_name sub = p_name p"
    "sub_price sub = p_price p" "sub_interval sub = p_interval p"
    "sub_email sub = req_email req" "sub_user_id sub = req_user_id req"
    by (simp_all add: sub_def new_subscription_def)
  have pair: "(subscription_id r, db_state w') =
                 create_document (ascii ''subscription'') sub (db_state w)"
    using i d by simp
  show ?thesis
    using c l pair s fields by (intro exI [of _ sub] exI [of _ r] exI [of _ w']) simp
qed

theorem checkout_persists_subscription_witness:
  "pro_plan \<in> set PRICING_PLANS \<and> req_plan_id example_request = p_id pro_plan \<and>
   (\<exists>sub r w'. checkout counting_create_document example_request empty_world = (Inr r, w')
           \<and> calls w' = calls empty_world @ [CreateDocument (ascii ''subscription'') sub]
           \<and> sub_status sub = Active
           \<and> sub_plan_id sub = ascii ''pro'' \<and> sub_plan_name sub = ascii ''Pro''
           \<and> sub_price sub = 29 \<and> sub_interval sub = Month
           \<and> sub_email sub = ascii ''x@y.com'' \<and> sub_user_id sub = None
           \<and> (subscription_id r, db_state w') =
                 counting_create_document (ascii ''subscription'') sub (db_state empty_world)
           \<and> resp_status r = sub_status sub)"
proof -
  have h1: "pro_plan \<in> set PRICING_PLANS" by (rule pro_in_catalog)
  have h2: "req_plan_id example_request = p_id pro_plan" by (simp add: example_request_def)
  have e: "p_id pro_plan = ascii ''pro''" "p_name pro_plan = ascii ''Pro''"
    "p_price pro_plan = 29" "p_interval pro_plan = Month"
    "req_email example_request = ascii ''x@y.com''" "req_user_id example_request = None"
    by (simp_all add: pro_plan_def example_request_def)
  show ?thesis
    using checkout_persists_subscription [OF h1 h2, of counting_create_document empty_world]
      h1 h2
    unfolding e by blast
qed

section \<open>Claims about the catalog\<close>

text \<open>
  C3. \<open>list_plans\<close> returns the catalog as declared: exactly 3 plans, with the ids
  \<open>starter\<close>, \<open>pro\<close>, \<open>business\<close> in this order, no id twice, and exactly one plan with
  \<open>most_popular\<close> set, the one with id \<open>pro\<close>.
\<close>

theorem list_plans_catalog:
  "length list_plans = 3
   \<and> map p_id list_plans = [ascii ''starter'', ascii ''pro'', ascii ''business'']
   \<and> list_plans = PRICING_PLANS
   \<and> distinct (map p_id list_plans)
   \<and> map p_id (filter p_most_popular list_plans) = [ascii ''pro'']
   \<and> length (filter p_most_popular list_plans) = 1"
  by (simp add: list_plans_def PRICING_PLANS_def starter_plan_def pro_plan_def business_plan_def)

section \<open>Claims about repeated checkout\<close>

lemma counting_created_ids_Cons:
  "created_ids counting_create_document (c # cs) n =
     replicate (Suc n) 105 # created_ids counting_create_document cs (Suc n)"
  by (cases c) (simp add: counting_create_document_def)

lemma counting_ids_range:
  "i \<in> set (created_ids counting_create_document cs n) \<Longrightarrow> n < length i"
proof (induction cs arbitrary: n)
  case Nil
  then show ?case by simp
next
  case (Cons c cs)
  from Cons.prems have "i = replicate (Suc n) 105
      \<or> i \<in> set (created_ids counting_create_document cs (Suc n))"
    unfolding counting_created_ids_Cons by simp
  then show ?case
  proof
    assume "i = replicate (Suc n) 105"
    then show ?thesis by simp
  next
    assume "i \<in> set (created_ids counting_create_document cs (Suc n))"
    then have "Suc n < length i" by (rule Cons.IH)
    then show ?thesis by simp
  qed
qed

lemma counting_ids_distinct: "distinct (created_ids counting_create_document cs n)"
proof (induction cs arbitrary: n)
  case Nil
  then show ?case by simp
next
  case (Cons c cs)
  have "replicate (Suc n) 105 \<notin> set (created_ids counting_create_document cs (Suc n))"
  proof
    assume "replicate (Suc n) 105 \<in> set (created_ids counting_create_document cs (Suc n))"
    then have "Suc n < length (replicate (Suc n) (105::nat))" by (rule counting_ids_range)
    then show False by simp
  qed
  then show ?case using Cons.IH [of "Suc n"]
    unfolding counting_created_ids_Cons by simp
qed

lemma counting_unique_ids: "unique_ids counting_create_document"
  unfolding unique_ids_def using counting_ids_distinct by blast

lemma two_calls_distinct:
  assumes "unique_ids create_document"
  shows "fst (create_document c d s) \<noteq> fst (create_document c' d' (snd (create_document c d s)))"
proof -
  have "distinct (created_ids create_document [(c, d), (c', d')] s)"
    using assms unfolding unique_ids_def by blast
  then show ?thesis by (simp split: prod.splits)
qed

text \<open>
  C5. Assuming that \<open>create_document\<close> returns a unique identifier on each call, two
  checkout calls with the same request, whose \<open>plan_id\<close> is valid, each hand a record to
  \<open>create_document\<close> (the same record twice: nothing is deduplicated) and return
  different \<open>subscription_id\<close> values.
\<close>

theorem checkout_twice_distinct_ids:
  assumes "unique_ids create_document"
    and "p \<in> set PRICING_PLANS" and "req_plan_id req = p_id p"
  shows "\<exists>r1 w1 r2 w2 sub.
           checkout create_document req w = (Inr r1, w1)
         \<and> checkout create_document req w1 = (Inr r2, w2)
         \<and> subscription_id r1 \<noteq> subscription_id r2
         \<and> calls w2 = calls w @ [CreateDocument (ascii ''subscription'') sub,
                                  CreateDocument (ascii ''subscription'') sub]"
proof -
  have f: "find (\<lambda>q. p_id q = req_plan_id req) PRICING_PLANS = Some p"
    using find_plan [OF assms(2)] assms(3) by simp
  define sub where "sub = new_subscription p req"
  define c where "c = ascii ''subscription''"
  obtain r1 w1 where c1: "checkout create_document req w = (Inr r1, w1)"
    and l1: "calls w1 = calls w @ [CreateDocument c sub]"
    and i1: "subscription_id r1 = fst (create_document c sub (db_state w))"
    and s1: "db_state w1 = snd (create_document c sub (db_state w))"
    using checkout_found_ex [OF f, of create_document w] unfolding sub_def c_def by blast
  obtain r2 w2 where c2: "checkout create_document req w1 = (Inr r2, w2)"
    and l2: "calls w2 = calls w1 @ [CreateDocument c sub]"
    and i2: "subscription_id r2 = fst (create_document c sub (db_state w1))"
    using checkout_found_ex [OF f, of create_document w1] unfolding sub_def c_def by blast
  have d: "subscription_id r1 \<noteq> subscription_id r2"
    unfolding i1 i2 s1 by (rule two_calls_distinct [OF assms(1)])
  have l: "calls w2 = calls w @ [CreateDocument (ascii ''subscription'') sub,
                                  CreateDocument (ascii ''subscription'') sub]"
    using l1 l2 by (simp add: c_def)
  show ?thesis using c1 c2 d l by blast
qed

theorem checkout_twice_distinct_ids_witness:
  "unique_ids counting_create_document \<and> pro_plan \<in> set PRICING_PLANS
   \<and> req_plan_id example_request = p_id pro_plan
   \<and> (\<exists>r1 w1 r2 w2 sub.
           checkout counting_create_document example_request empty_world = (Inr r1, w1)
         \<and> checkout counting_create_document example_request w1 = (Inr r2, w2)
         \<and> subscription_id r1 \<noteq> subscription_id r2
         \<and> calls w2 = calls empty_world @ [CreateDocument (ascii ''subscription'') sub,
                                  CreateDocument (ascii ''subscription'') sub])"
proof -
  have h1: "pro_plan \<in> set PRICING_PLANS" by (rule pro_in_catalog)
  have h2: "req_plan_id example_request = p_id pro_plan" by (simp add: example_request_def)
  show ?thesis
    using checkout_twice_distinct_ids [OF counting_unique_ids h1 h2, of empty_world]
      counting_unique_ids h1 h2
    by blast
qed

lemma checkout_twice_example:
  "fst (checkout counting_create_document example_request
         (snd (checkout counting_create_document example_request empty_world)))
     = Inr \<lparr>subscription_id = ascii ''ii'', resp_status = Active,
           message = ascii ''Subscription for Pro activated''\<rparr>"
proof -
  have "p_id pro_plan = req_plan_id example_request"
    by (simp add: example_request_def)
  then have f: "find (\<lambda>q. p_id q = req_plan_id example_request) PRICING_PLANS = Some pro_plan"
    using find_plan [OF pro_in_catalog] by simp
  show ?thesis
    unfolding checkout_example
    unfolding checkout_found [OF f]
    by (simp add: counting_create_document_def pro_message ascii_def)
qed

section \<open>Claims about the subscription query\<close>

lemma key_names_differ [simp]:
  "ascii ''user_id'' \<noteq> ascii ''email''" "ascii ''email'' \<noteq> ascii ''user_id''"
  by simp_all

lemma build_filter_eq: "build_filter email user_id = equality_filter_of_nonempty email user_id"
  by (cases email; cases user_id)
     (simp_all add: build_filter_def equality_filter_of_nonempty_def truthy_def Let_def)

lemma get_user_subscriptions_eq:
  "get_user_subscriptions get_documents py_str email user_id w =
     (\<lparr>items = map (stringify_id py_str)
                (fst (get_documents (ascii ''subscription'') (build_filter email user_id) 50
                        (db_state w)))\<rparr>,
      \<lparr>db_state = snd (get_documents (ascii ''subscription'') (build_filter email user_id) 50
                        (db_state w)),
       calls = calls w @ [GetDocuments (ascii ''subscription'') (build_filter email user_id) 50]\<rparr>)"
  by (simp add: get_user_subscriptions_def call_get_documents_def split: prod.split)

text \<open>
  C4, as amended. For every call to \<open>get_user_subscriptions\<close>, the accessor is called once,
  on the collection \<open>"subscription"\<close> with limit 50, and the filter is the equality filter
  built from exactly those of \<open>user_id\<close> and \<open>email\<close> that are supplied and not the empty
  string (both, either, or neither; neither gives the empty filter). When no parameter is
  the empty string this is the filter of the supplied parameters.
\<close>

theorem get_subscriptions_filter_and_limit:
  "\<exists>resp w'. get_user_subscriptions get_documents py_str email user_id w = (resp, w')
      \<and> calls w' = calls w @ [GetDocuments (ascii ''subscription'')
                                (equality_filter_of_nonempty email user_id) 50]
      \<and> (email \<noteq> Some [] \<and> user_id \<noteq> Some [] \<longrightarrow>
            equality_filter_of_nonempty email user_id = equality_filter_of_supplied email user_id)"
proof -
  have "email \<noteq> Some [] \<and> user_id \<noteq> Some [] \<longrightarrow>
            equality_filter_of_nonempty email user_id = equality_filter_of_supplied email user_id"
    by (cases email; cases user_id)
       (simp_all add: equality_filter_of_nonempty_def equality_filter_of_supplied_def)
  then show ?thesis
    unfolding get_user_subscriptions_eq build_filter_eq by simp
qed

theorem get_subscriptions_filter_and_limit_witness:
  "Some (ascii ''a@b.com'') \<noteq> Some [] \<and> Some (ascii ''u1'') \<noteq> Some [] \<and>
   (\<exists>resp w'. get_user_subscriptions listing_get_documents example_str
                 (Some (ascii ''a@b.com'')) (Some (ascii ''u1'')) example_store = (resp, w')
      \<and> calls w' = [GetDocuments (ascii ''subscription'')
                       [(ascii ''user_id'', ascii ''u1''), (ascii ''email'', ascii ''a@b.com'')] 50]
      \<and> equality_filter_of_supplied (Some (ascii ''a@b.com'')) (Some (ascii ''u1''))
           = [(ascii ''user_id'', ascii ''u1''), (ascii ''email'', ascii ''a@b.com'')])"
  using get_subscriptions_filter_and_limit
          [of listing_get_documents example_str "Some (ascii ''a@b.com'')" "Some (ascii ''u1'')"
              example_store]
  by (simp add: equality_filter_of_nonempty_def equality_filter_of_supplied_def
        example_store_def)

text \<open>
  The claim as it is written fails when a parameter is supplied as the empty string:
  for \<open>email = ""\<close> and no \<open>user_id\<close> the filter passed is empty, and the equality filter of
  the supplied parameters is \<open>{"email": ""}\<close>.
\<close>

theorem get_subscriptions_filter_counterexample:
  "calls (snd (get_user_subscriptions listing_get_documents example_str (Some []) None
                 example_store))
     \<noteq> [GetDocuments (ascii ''subscription'') (equality_filter_of_supplied (Some []) None) 50]"
  unfolding get_user_subscriptions_eq build_filter_eq
  by (simp add: equality_filter_of_nonempty_def equality_filter_of_supplied_def example_store_def)

text \<open>
  C10. A parameter supplied as the empty string is treated as absent: it is left out of
  the filter, so the call with \<open>email = ""\<close> and \<open>user_id = ""\<close> is the call with neither
  parameter, and the accessor is asked for the empty, unfiltered filter, not for the
  records whose fields are the empty string.
\<close>

theorem get_subscriptions_empty_string_is_absent:
  "get_user_subscriptions get_documents py_str (Some []) (Some []) w
     = get_user_subscriptions get_documents py_str None None w
   \<and> get_user_subscriptions get_documents py_str (Some []) user_id w
     = get_user_subscriptions get_documents py_str None user_id w
   \<and> get_user_subscriptions get_documents py_str email (Some []) w
     = get_user_subscriptions get_documents py_str email None w
   \<and> calls (snd (get_user_subscriptions get_documents py_str (Some []) (Some []) w))
     = calls w @ [GetDocuments (ascii ''subscription'') [] 50]
   \<and> calls (snd (get_user_subscriptions get_documents py_str (Some []) (Some []) w))
     \<noteq> calls w @ [GetDocuments (ascii ''subscription'')
                      [(ascii ''user_id'', []), (ascii ''email'', [])] 50]"
  unfolding get_user_subscriptions_eq build_filter_eq
  by (simp add: equality_filter_of_nonempty_def)

theorem get_subscriptions_empty_string_is_absent_witness:
  "get_user_subscriptions listing_get_documents example_str (Some []) (Some []) example_store
     = get_user_subscriptions listing_get_documents example_str None None example_store
   \<and> calls (snd (get_user_subscriptions listing_get_documents example_str (Some []) (Some [])
                    example_store))
     = [GetDocuments (ascii ''subscription'') [] 50]
   \<and> length (items (fst (get_user_subscriptions listing_get_documents example_str (Some [])
                            (Some []) example_store))) = 3"
proof -
  have c: "calls example_store = []"
    by (simp add: example_store_def)
  have l: "length (items (fst (get_user_subscriptions listing_get_documents example_str None None
                            example_store))) = 3"
    unfolding get_user_subscriptions_eq build_filter_eq
    by (simp add: equality_filter_of_nonempty_def listing_get_documents_def matches_def
          example_store_def example_docs_def)
  note t = get_subscriptions_empty_string_is_absent
             [of listing_get_documents example_str example_store None None]
  from t have e: "get_user_subscriptions listing_get_documents example_str (Some []) (Some [])
                    example_store
                  = get_user_subscriptions listing_get_documents example_str None None
                      example_store"
    by blast
  from t have "calls (snd (get_user_subscriptions listing_get_documents example_str (Some [])
                    (Some []) example_store))
                  = calls example_store @ [GetDocuments (ascii ''subscription'') [] 50]"
    by blast
  then have k: "calls (snd (get_user_subscriptions listing_get_documents example_str (Some [])
                    (Some []) example_store))
                  = [GetDocuments (ascii ''subscription'') [] 50]"
    unfolding c by simp
  have l': "length (items (fst (get_user_subscriptions listing_get_documents example_str (Some [])
                            (Some []) example_store))) = 3"
    unfolding e by (rule l)
  show ?thesis using e k l' by blast
qed

text \<open>What the loop does to one document.\<close>

lemma update_other_entries:
  "filter (\<lambda>e. fst e \<noteq> k) (AList.update k v al) = filter (\<lambda>e. fst e \<noteq> k) al"
  by (induction al) auto

lemma stringify_id_keys: "map fst (stringify_id py_str d) = map fst d"
proof (cases "map_of d (ascii ''_id'')")
  case None
  then show ?thesis by (simp add: stringify_id_def)
next
  case (Some v)
  then have "ascii ''_id'' \<in> fst ` set d"
    using map_of_SomeD [OF Some] by force
  then show ?thesis using Some by (simp add: stringify_id_def AList.update_keys)
qed

lemma stringify_id_lookup:
  "map_of (stringify_id py_str d) (ascii ''_id'')
     = map_option (\<lambda>v. Str (str_of py_str v)) (map_of d (ascii ''_id''))"
  by (cases "map_of d (ascii ''_id'')") (simp_all add: stringify_id_def AList.update_conv')

lemma stringify_id_others:
  "filter (\<lambda>e. fst e \<noteq> ascii ''_id'') (stringify_id py_str d)
     = filter (\<lambda>e. fst e \<noteq> ascii ''_id'') d"
  by (cases "map_of d (ascii ''_id'')") (simp_all add: stringify_id_def update_other_entries)

lemma stringify_id_other_lookup:
  "k \<noteq> ascii ''_id'' \<Longrightarrow> map_of (stringify_id py_str d) k = map_of d k"
  by (cases "map_of d (ascii ''_id'')") (simp_all add: stringify_id_def AList.update_conv')

text \<open>
  C9. The response is \<open>{"items": ...}\<close> with one record for each record the accessor
  returned, in the same order. In each, the keys are the same; the value of \<open>"_id"\<close>, when
  the record has that field, is the \<open>str()\<close> of the value the accessor produced; and every
  other field is as the accessor produced it.
\<close>

theorem get_subscriptions_stringifies_ids:
  assumes "get_documents (ascii ''subscription'') (build_filter email user_id) 50 (db_state w)
             = (docs, s')"
  shows "\<exists>resp w'. get_user_subscriptions get_documents py_str email user_id w = (resp, w')
     \<and> length (items resp) = length docs
     \<and> (\<forall>i < length docs.
          map fst (items resp ! i) = map fst (docs ! i)
        \<and> map_of (items resp ! i) (ascii ''_id'')
            = map_option (\<lambda>v. Str (str_of py_str v)) (map_of (docs ! i) (ascii ''_id''))
        \<and> filter (\<lambda>e. fst e \<noteq> ascii ''_id'') (items resp ! i)
            = filter (\<lambda>e. fst e \<noteq> ascii ''_id'') (docs ! i)
        \<and> (\<forall>k. k \<noteq> ascii ''_id'' \<longrightarrow> map_of (items resp ! i) k = map_of (docs ! i) k))"
  unfolding get_user_subscriptions_eq assms
  by (simp add: stringify_id_keys stringify_id_lookup stringify_id_others
        stringify_id_other_lookup)

theorem get_subscriptions_stringifies_ids_witness:
  "listing_get_documents (ascii ''subscription'') (build_filter (Some (ascii ''a@b.com'')) None) 50
       (db_state example_store) = (take 2 example_docs, example_docs)
   \<and> (\<exists>resp w'. get_user_subscriptions listing_get_documents example_str
                   (Some (ascii ''a@b.com'')) None example_store = (resp, w')
     \<and> length (items resp) = 2
     \<and> map_of (items resp ! 0) (ascii ''_id'') = Some (Str (ascii ''ff''))
     \<and> map_of (items resp ! 0) (ascii ''email'') = Some (Str (ascii ''a@b.com''))
     \<and> map_of (items resp ! 0) (ascii ''plan_id'') = Some (Str (ascii ''pro''))
     \<and> map_of (items resp ! 1) (ascii ''_id'') = None
     \<and> map_of (items resp ! 1) (ascii ''plan_id'') = Some (Str (ascii ''starter'')))"
proof -
  let ?docs = "take 2 example_docs"
  have h: "listing_get_documents (ascii ''subscription'')
       (build_filter (Some (ascii ''a@b.com'')) None) 50
       (db_state example_store) = (?docs, example_docs)"
    unfolding build_filter_eq
    by (simp add: equality_filter_of_nonempty_def listing_get_documents_def matches_def
          example_store_def example_docs_def)
  obtain resp w' where g: "get_user_subscriptions listing_get_documents example_str
                   (Some (ascii ''a@b.com'')) None example_store = (resp, w')"
    and len: "length (items resp) = length ?docs"
    and each: "\<And>i. i < length ?docs \<Longrightarrow>
          map_of (items resp ! i) (ascii ''_id'')
            = map_option (\<lambda>v. Str (str_of example_str v)) (map_of (?docs ! i) (ascii ''_id''))
        \<and> (\<forall>k. k \<noteq> ascii ''_id'' \<longrightarrow> map_of (items resp ! i) k = map_of (?docs ! i) k)"
    using get_subscriptions_stringifies_ids
            [where get_documents = listing_get_documents and email = "Some (ascii ''a@b.com'')"
               and user_id = None and w = example_store and py_str = example_str, OF h]
    by blast
  have n: "length ?docs = 2" "?docs ! 0 = example_docs ! 0" "?docs ! 1 = example_docs ! 1"
    by (simp_all add: example_docs_def)
  have ff: "str_of example_str (Other 2) = ascii ''ff''"
    by (simp add: str_of_def example_str_def ascii_def numeral_2_eq_2)
  have d0: "map_of (example_docs ! 0) (ascii ''_id'') = Some (Other 2)"
    "map_of (example_docs ! 0) (ascii ''email'') = Some (Str (ascii ''a@b.com''))"
    "map_of (example_docs ! 0) (ascii ''plan_id'') = Some (Str (ascii ''pro''))"
    by (simp_all add: example_docs_def)
  have d1: "map_of (example_docs ! Suc 0) (ascii ''_id'') = None"
    "map_of (example_docs ! Suc 0) (ascii ''plan_id'') = Some (Str (ascii ''starter''))"
    by (simp_all add: example_docs_def)
  have lt: "0 < length ?docs" "1 < length ?docs"
    by (simp_all add: example_docs_def)
  have r0: "map_of (items resp ! 0) (ascii ''_id'') = Some (Str (ascii ''ff''))"
    "map_of (items resp ! 0) (ascii ''email'') = Some (Str (ascii ''a@b.com''))"
    "map_of (items resp ! 0) (ascii ''plan_id'') = Some (Str (ascii ''pro''))"
    using each [OF lt(1)] unfolding n by (simp_all add: d0 ff)
  have r1: "map_of (items resp ! 1) (ascii ''_id'') = None"
    "map_of (items resp ! 1) (ascii ''plan_id'') = Some (Str (ascii ''starter''))"
    using each [OF lt(2)] unfolding n by (simp_all add: d1)
  have l2: "length (items resp) = 2" using len n by simp
  show ?thesis using h g l2 r0 r1 by blast
qed

section \<open>Claims about the diagnostics handler\<close>

text \<open>The report on each path through the handler.\<close>

lemma test_database_import_error:
  "test_database getenv (ImportRaises (ImportError m)) =
     Inr \<lparr>backend = check_mark @ ascii '' Running'',
          database = cross_mark @ ascii '' Database module not found (run enable-database first)'',
          database_url = Some (env_flag getenv (ascii ''DATABASE_URL'')),
          database_name = Some (env_flag getenv (ascii ''DATABASE_NAME'')),
          connection_status = ascii ''Not Connected'', collections = []\<rparr>"
  by (simp add: test_database_def try_block_def except_clauses_def)

lemma test_database_other_exception:
  "test_database getenv (ImportRaises (OtherException m)) =
     Inr \<lparr>backend = check_mark @ ascii '' Running'',
          database = cross_mark @ ascii '' Error: '' @ take 50 m,
          database_url = Some (env_flag getenv (ascii ''DATABASE_URL'')),
          database_name = Some (env_flag getenv (ascii ''DATABASE_NAME'')),
          connection_status = ascii ''Not Connected'', collections = []\<rparr>"
  by (simp add: test_database_def try_block_def except_clauses_def)

lemma test_database_not_initialized:
  "test_database getenv (Imported None) =
     Inr \<lparr>backend = check_mark @ ascii '' Running'',
          database = warning_sign @ ascii ''  Available but not initialized'',
          database_url = Some (env_flag getenv (ascii ''DATABASE_URL'')),
          database_name = Some (env_flag getenv (ascii ''DATABASE_NAME'')),
          connection_status = ascii ''Not Connected'', collections = []\<rparr>"
  by (simp add: test_database_def try_block_def except_clauses_def)

lemma test_database_working:
  assumes "list_collection_names db = Inr names"
  shows "test_database getenv (Imported (Some db)) =
     Inr \<lparr>backend = check_mark @ ascii '' Running'',
          database = check_mark @ ascii '' Connected & Working'',
          database_url = Some (env_flag getenv (ascii ''DATABASE_URL'')),
          database_name = Some (env_flag getenv (ascii ''DATABASE_NAME'')),
          connection_status = ascii ''Connected'', collections = take 10 names\<rparr>"
  by (simp add: test_database_def try_block_def except_clauses_def list_collections_block_def
        assms)

lemma test_database_enumeration_error:
  assumes "list_collection_names db = Inl e"
  shows "test_database getenv (Imported (Some db)) =
     Inr \<lparr>backend = check_mark @ ascii '' Running'',
          database = warning_sign @ ascii ''  Connected but Error: ''
                       @ take 50 (exception_str e),
          database_url = Some (env_flag getenv (ascii ''DATABASE_URL'')),
          database_name = Some (env_flag getenv (ascii ''DATABASE_NAME'')),
          connection_status = ascii ''Connected'', collections = []\<rparr>"
  by (simp add: test_database_def try_block_def except_clauses_def list_collections_block_def
        assms)

text \<open>
  C7. The diagnostics handler never raises: whatever the import of the accessor does
  (it raises an \<open>ImportError\<close>, it raises another exception, it gives no connection, it
  gives a connection whose enumeration raises or returns), the handler returns a report,
  and each failure is text in the report's \<open>database\<close> field.
\<close>

theorem test_database_never_raises:
  "\<exists>r. test_database getenv outcome = Inr r
     \<and> (\<forall>m. outcome = ImportRaises (ImportError m) \<longrightarrow>
            database r = cross_mark
              @ ascii '' Database module not found (run enable-database first)'')
     \<and> (\<forall>m. outcome = ImportRaises (OtherException m) \<longrightarrow>
            database r = cross_mark @ ascii '' Error: '' @ take 50 m)
     \<and> (outcome = Imported None \<longrightarrow>
            database r = warning_sign @ ascii ''  Available but not initialized'')
     \<and> (\<forall>db e. outcome = Imported (Some db) \<and> list_collection_names db = Inl e \<longrightarrow>
            database r = warning_sign @ ascii ''  Connected but Error: ''
                           @ take 50 (exception_str e))"
proof (cases outcome)
  case (ImportRaises e)
  then show ?thesis
  proof (cases e)
    case (ImportError m)
    show ?thesis
      unfolding ImportRaises ImportError test_database_import_error by simp
  next
    case (OtherException m)
    show ?thesis
      unfolding ImportRaises OtherException test_database_other_exception by simp
  qed
next
  case (Imported h)
  show ?thesis
  proof (cases h)
    case None
    show ?thesis
      unfolding Imported None test_database_not_initialized by simp
  next
    case (Some db)
    show ?thesis
    proof (cases "list_collection_names db")
      case (Inl e)
      show ?thesis
        unfolding Imported Some test_database_enumeration_error [OF Inl] using Inl by simp
    next
      case (Inr names)
      show ?thesis
        unfolding Imported Some test_database_working [OF Inr] using Inr by simp
    qed
  qed
qed

theorem test_database_never_raises_witness:
  "(\<exists>r. test_database example_getenv (ImportRaises (ImportError (ascii ''No module'')))
           = Inr r
        \<and> database r = cross_mark
              @ ascii '' Database module not found (run enable-database first)'')
   \<and> (\<exists>r. test_database example_getenv (ImportRaises (OtherException (replicate 60 120)))
           = Inr r
        \<and> database r = cross_mark @ ascii '' Error: '' @ replicate 50 120)
   \<and> (\<exists>r. test_database example_getenv (Imported None) = Inr r
        \<and> database r = warning_sign @ ascii ''  Available but not initialized'')
   \<and> (\<exists>r. test_database example_getenv (Imported (Some failing_handle)) = Inr r
        \<and> database r = warning_sign @ ascii ''  Connected but Error: '' @ replicate 50 120)"
proof -
  have a: "\<exists>r. test_database example_getenv (ImportRaises (ImportError (ascii ''No module'')))
           = Inr r
        \<and> database r = cross_mark
              @ ascii '' Database module not found (run enable-database first)''"
    using test_database_never_raises
            [of example_getenv "ImportRaises (ImportError (ascii ''No module''))"]
    by auto
  have b: "\<exists>r. test_database example_getenv (ImportRaises (OtherException (replicate 60 120)))
           = Inr r
        \<and> database r = cross_mark @ ascii '' Error: '' @ replicate 50 120"
    using test_database_never_raises
            [of example_getenv "ImportRaises (OtherException (replicate 60 120))"]
    by auto
  have c: "\<exists>r. test_database example_getenv (Imported None) = Inr r
        \<and> database r = warning_sign @ ascii ''  Available but not initialized''"
    using test_database_never_raises [of example_getenv "Imported None"]
    by auto
  have f: "list_collection_names failing_handle = Inl (OtherException (replicate 60 120))"
    by (simp add: failing_handle_def)
  have d: "\<exists>r. test_database example_getenv (Imported (Some failing_handle)) = Inr r
        \<and> database r = warning_sign @ ascii ''  Connected but Error: '' @ replicate 50 120"
    using test_database_never_raises [of example_getenv "Imported (Some failing_handle)"] f
    by (auto simp add: exception_str_def)
  show ?thesis using a b c d by blast
qed

text \<open>
  C8. When the connection is available, the handler reports \<open>"Connected"\<close> and enumerates
  the collection names: the report holds the first 10 of them at most. When the
  enumeration raises, the report is returned all the same, its \<open>database\<close> field is the
  connected-but-error text followed by the first 50 characters of the error message, and
  it lists no collection.
\<close>

theorem test_database_lists_collections:
  "\<exists>r. test_database getenv (Imported (Some db)) = Inr r
     \<and> connection_status r = ascii ''Connected''
     \<and> (\<forall>names. list_collection_names db = Inr names \<longrightarrow>
            collections r = take 10 names \<and> length (collections r) \<le> 10
          \<and> database r = check_mark @ ascii '' Connected & Working'')
     \<and> (\<forall>e. list_collection_names db = Inl e \<longrightarrow>
            database r = warning_sign @ ascii ''  Connected but Error: ''
                           @ take 50 (exception_str e)
          \<and> length (take 50 (exception_str e)) \<le> 50
          \<and> collections r = [])"
proof (cases "list_collection_names db")
  case (Inl e)
  show ?thesis
    unfolding test_database_enumeration_error [OF Inl] using Inl by simp
next
  case (Inr names)
  show ?thesis
    unfolding test_database_working [OF Inr] using Inr by simp
qed

theorem test_database_lists_collections_witness:
  "list_collection_names working_handle = Inr twelve_names
   \<and> (\<exists>r. test_database example_getenv (Imported (Some working_handle)) = Inr r
        \<and> connection_status r = ascii ''Connected''
        \<and> collections r = [ascii ''c01'', ascii ''c02'', ascii ''c03'', ascii ''c04'',
             ascii ''c05'', ascii ''c06'', ascii ''c07'', ascii ''c08'', ascii ''c09'', ascii ''c10'']
        \<and> database r = check_mark @ ascii '' Connected & Working'')
   \<and> list_collection_names failing_handle = Inl (OtherException (replicate 60 120))
   \<and> (\<exists>r. test_database example_getenv (Imported (Some failing_handle)) = Inr r
        \<and> connection_status r = ascii ''Connected''
        \<and> database r = warning_sign @ ascii ''  Connected but Error: '' @ replicate 50 120
        \<and> collections r = [])"
proof -
  have w: "list_collection_names working_handle = Inr twelve_names"
    by (simp add: working_handle_def)
  have t: "take 10 twelve_names = [ascii ''c01'', ascii ''c02'', ascii ''c03'', ascii ''c04'',
             ascii ''c05'', ascii ''c06'', ascii ''c07'', ascii ''c08'', ascii ''c09'', ascii ''c10'']"
    by (simp add: twelve_names_def)
  have a: "\<exists>r. test_database example_getenv (Imported (Some working_handle)) = Inr r
        \<and> connection_status r = ascii ''Connected''
        \<and> collections r = [ascii ''c01'', ascii ''c02'', ascii ''c03'', ascii ''c04'',
             ascii ''c05'', ascii ''c06'', ascii ''c07'', ascii ''c08'', ascii ''c09'', ascii ''c10'']
        \<and> database r = check_mark @ ascii '' Connected & Working''"
    using test_database_lists_collections [of example_getenv working_handle] w t by auto
  have f: "list_collection_names failing_handle = Inl (OtherException (replicate 60 120))"
    by (simp add: failing_handle_def)
  have b: "\<exists>r. test_database example_getenv (Imported (Some failing_handle)) = Inr r
        \<and> connection_status r = ascii ''Connected''
        \<and> database r = warning_sign @ ascii ''  Connected but Error: '' @ replicate 50 120
        \<and> collections r = []"
    using test_database_lists_collections [of example_getenv failing_handle] f
    by (auto simp add: exception_str_def)
  show ?thesis using w a f b by blast
qed

end
